theory Spec2Isabelle
  imports Main
begin

section \<open>Exceptions, tensors and the observable world\<close>

text \<open>
  The development embeds \<^verbatim>\<open>src/gemini_torch/model.py\<close>: the function \<^verbatim>\<open>exists\<close>, the
  constructor \<^verbatim>\<open>Gemini.__init__\<close> and the method \<^verbatim>\<open>Gemini.forward\<close>.

  A Python exception is its class name together with the text that \<^verbatim>\<open>str(e)\<close>
  returns, which is what \<^verbatim>\<open>print(..., e)\<close> writes. \<open>Exn\<close> is an instance of a
  subclass of \<^verbatim>\<open>Exception\<close>, the class both \<^verbatim>\<open>except\<close> clauses of the source
  name; \<open>BaseExn\<close> is an instance of \<^verbatim>\<open>BaseException\<close> that is not an
  \<^verbatim>\<open>Exception\<close>, such as \<^verbatim>\<open>KeyboardInterrupt\<close> or \<^verbatim>\<open>SystemExit\<close>.
\<close>

datatype exn =
    is_Exception: Exn (exn_class: string) (exn_str: string)
  | BaseExn (exn_class: string) (exn_str: string)

text \<open>
  A tensor is its shape and its elements in row-major order. The element type is left
  open: the source never looks at an element. Element types and devices of torch are
  not modelled.
\<close>

record 'a tensor =
  shape :: "nat list"
  elems :: "'a list"

subsection \<open>What \<^verbatim>\<open>print\<close> writes for a shape\<close>

definition digit_char :: "nat \<Rightarrow> char" where
  "digit_char d = ''0123456789'' ! d"

fun show_nat :: "nat \<Rightarrow> string" where
  "show_nat n =
     (if n < 10 then [digit_char n] else show_nat (n div 10) @ [digit_char (n mod 10)])"

declare show_nat.simps [simp del]

fun join_comma :: "string list \<Rightarrow> string" where
  "join_comma [] = []"
| "join_comma [s] = s"
| "join_comma (s # t # ss) = s @ '', '' @ join_comma (t # ss)"

text \<open>\<^verbatim>\<open>str(text.shape)\<close>, for instance \<^verbatim>\<open>torch.Size([2, 3, 4])\<close>.\<close>

definition show_size :: "nat list \<Rightarrow> string" where
  "show_size ds = ''torch.Size(['' @ join_comma (map show_nat ds) @ ''])''"

subsection \<open>The world a call runs in\<close>

text \<open>
  The sub-modules of the model (the autoregressive decoder and the two encoders) are
  objects of classes imported from other modules. A call of one of them is recorded as
  an event with its arguments, so that "invoked exactly once" and "passed as the
  prepend" are statements about the list of events. The state the sub-modules own
  (their parameters and buffers) is the component \<open>params\<close>, of an open type: a
  sub-module call may read and write it, and nothing else may. \<open>stdout\<close> holds the
  lines printed so far.
\<close>

datatype ('a, 'k) event =
    is_AudioCall: AudioCall "'a tensor"
  | is_ImgCall: ImgCall "'a tensor"
  | is_DecoderCall: DecoderCall "'a tensor" "'a tensor option" 'k

record ('a, 'k, 'p) world =
  stdout :: "string list"
  calls :: "('a, 'k) event list"
  params :: 'p

text \<open>
  A statement or a call is a function from the world to an outcome and the world after
  it; \<open>Inl e\<close> is the exception \<open>e\<close> propagating.
\<close>

type_synonym ('r, 'w) prog = "'w \<Rightarrow> (exn + 'r) \<times> 'w"

definition return_value :: "'r \<Rightarrow> ('r, 'w) prog" where
  "return_value x w = (Inr x, w)"

definition raise_exn :: "exn \<Rightarrow> ('r, 'w) prog" where
  "raise_exn e w = (Inl e, w)"

definition bind_prog :: "('r, 'w) prog \<Rightarrow> ('r \<Rightarrow> ('s, 'w) prog) \<Rightarrow> ('s, 'w) prog" where
  "bind_prog m f w = (case m w of (Inl e, w') \<Rightarrow> (Inl e, w') | (Inr x, w') \<Rightarrow> f x w')"

text \<open>
  \<^verbatim>\<open>try: m  except Exception as e: h(e)\<close>. The handler runs for an instance of
  \<^verbatim>\<open>Exception\<close> only; any other exception propagates past the clause.
\<close>

definition try_except :: "('r, 'w) prog \<Rightarrow> (exn \<Rightarrow> ('r, 'w) prog) \<Rightarrow> ('r, 'w) prog" where
  "try_except m h w =
     (case m w of
        (Inl e, w') \<Rightarrow> if is_Exception e then h e w' else (Inl e, w')
      | (Inr x, w') \<Rightarrow> (Inr x, w'))"

definition print_line :: "string \<Rightarrow> (unit, ('a, 'k, 'p) world) prog" where
  "print_line s w = (Inr (), w\<lparr>stdout := stdout w @ [s]\<rparr>)"

text \<open>A value of the sum type, such as the outcome of \<^verbatim>\<open>torch.cat\<close>, as a statement.\<close>

definition lift_result :: "exn + 'r \<Rightarrow> ('r, 'w) prog" where
  "lift_result r w = (r, w)"

section \<open>\<^verbatim>\<open>torch.cat\<close>\<close>

text \<open>
  \<^verbatim>\<open>torch.cat(tensors, dim=0)\<close> as torch documents it: the tensors must have the same
  shape except in dimension \<open>d\<close>, or be 1-D and empty (shape \<open>[0]\<close>, which are skipped);
  a 0-dimensional tensor cannot be concatenated. The result has the sizes along \<open>d\<close>
  added up. The texts of the exceptions are shortened.
\<close>

definition legacy_empty :: "'a tensor \<Rightarrow> bool" where
  "legacy_empty t = (shape t = [0])"

definition same_except :: "nat \<Rightarrow> nat list \<Rightarrow> nat list \<Rightarrow> bool" where
  "same_except d s s' = (take d s = take d s' \<and> drop (Suc d) s = drop (Suc d) s')"

text \<open>
  Row-major elements of the result: for each index of the dimensions before \<open>d\<close>, the
  block of every tensor in turn.
\<close>

definition cat_elems :: "nat \<Rightarrow> nat list \<Rightarrow> 'a tensor list \<Rightarrow> 'a list" where
  "cat_elems d s0 ts =
     concat (map (\<lambda>outer.
       concat (map (\<lambda>t. take (prod_list (drop d (shape t)))
                          (drop (outer * prod_list (drop d (shape t))) (elems t))) ts))
       [0 ..< prod_list (take d s0)])"

definition torch_cat :: "'a tensor list \<Rightarrow> nat \<Rightarrow> exn + 'a tensor" where
  "torch_cat tensors d =
     (if tensors = [] then
        Inl (Exn ''RuntimeError'' ''torch.cat(): expected a non-empty list of Tensors'')
      else if list_ex (\<lambda>t. shape t = []) tensors then
        Inl (Exn ''RuntimeError'' ''zero-dimensional tensor cannot be concatenated'')
      else
        (case filter (\<lambda>t. \<not> legacy_empty t) tensors of
           [] \<Rightarrow> Inr \<lparr>shape = [0], elems = []\<rparr>
         | t0 # ts \<Rightarrow>
             if length (shape t0) \<le> d then
               Inl (Exn ''IndexError'' ''Dimension out of range'')
             else if list_ex (\<lambda>t. length (shape t) \<noteq> length (shape t0)) ts then
               Inl (Exn ''RuntimeError'' ''Tensors must have same number of dimensions'')
             else if list_ex (\<lambda>t. \<not> same_except d (shape t0) (shape t)) ts then
               Inl (Exn ''RuntimeError''
                      ''Sizes of tensors must match except in the concatenating dimension'')
             else
               Inr \<lparr>shape = (shape t0)[d := sum_list (map (\<lambda>t. shape t ! d) (t0 # ts))],
                    elems = cat_elems d (shape t0) (t0 # ts)\<rparr>))"

section \<open>The model object and its sub-modules\<close>

text \<open>
  An encoder is called with a tensor, a decoder with the text, the keyword argument
  \<^verbatim>\<open>prepend_embeds\<close> (absent in the text-only call) and the extra arguments
  \<^verbatim>\<open>*args, **kwargs\<close>, of an open type. Each may raise, and each runs on the state of the
  sub-modules.
\<close>

type_synonym ('a, 'p) encoder = "'a tensor \<Rightarrow> 'p \<Rightarrow> (exn + 'a tensor) \<times> 'p"

type_synonym ('a, 'k, 'p) autoregressive =
  "'a tensor \<Rightarrow> 'a tensor option \<Rightarrow> 'k \<Rightarrow> 'p \<Rightarrow> (exn + 'a tensor) \<times> 'p"

text \<open>The four attributes \<^verbatim>\<open>__init__\<close> sets on \<^verbatim>\<open>self\<close>.\<close>

record ('t, 'd, 'i, 'u) Gemini =
  gemini :: 't
  decoder :: 'd
  img_to_text_embedding :: 'i
  audio_to_lang_embedding :: 'u

type_synonym ('t, 'a, 'k, 'p) Gemini_model =
  "('t, ('a, 'k, 'p) autoregressive, ('a, 'p) encoder, ('a, 'p) encoder) Gemini"

definition call_audio ::
  "('t, 'a, 'k, 'p) Gemini_model \<Rightarrow> 'a tensor \<Rightarrow> ('a tensor, ('a, 'k, 'p) world) prog" where
  "call_audio self x w =
     (case audio_to_lang_embedding self x (params w) of
        (r, p') \<Rightarrow> (r, w\<lparr>calls := calls w @ [AudioCall x], params := p'\<rparr>))"

definition call_img ::
  "('t, 'a, 'k, 'p) Gemini_model \<Rightarrow> 'a tensor \<Rightarrow> ('a tensor, ('a, 'k, 'p) world) prog" where
  "call_img self x w =
     (case img_to_text_embedding self x (params w) of
        (r, p') \<Rightarrow> (r, w\<lparr>calls := calls w @ [ImgCall x], params := p'\<rparr>))"

definition call_decoder ::
  "('t, 'a, 'k, 'p) Gemini_model \<Rightarrow> 'a tensor \<Rightarrow> 'a tensor option \<Rightarrow> 'k \<Rightarrow>
     ('a tensor, ('a, 'k, 'p) world) prog" where
  "call_decoder self text prepend_embeds kw w =
     (case decoder self text prepend_embeds kw (params w) of
        (r, p') \<Rightarrow> (r, w\<lparr>calls := calls w @ [DecoderCall text prepend_embeds kw], params := p'\<rparr>))"

section \<open>\<^verbatim>\<open>exists\<close> and \<^verbatim>\<open>Gemini.forward\<close>\<close>

text \<open>\<^verbatim>\<open>def exists(val): return val is not None\<close>\<close>

definition exists :: "'v option \<Rightarrow> bool" where
  "exists val = (case val of None \<Rightarrow> False | Some _ \<Rightarrow> True)"

text \<open>
  The body of the \<^verbatim>\<open>try\<close> statement of \<^verbatim>\<open>forward\<close> (lines 132 to 157): the
  \<^verbatim>\<open>if/elif/else\<close> chain on \<^verbatim>\<open>exists(img)\<close> and \<^verbatim>\<open>exists(audio)\<close>. In the first branch
  the audio encoder runs before the image encoder, and \<^verbatim>\<open>torch.cat((text, img, audio))\<close>
  is called without \<^verbatim>\<open>dim\<close>, that is with \<^verbatim>\<open>dim=0\<close>. \<open>text\<close> is a tensor here: the
  statement before the \<^verbatim>\<open>try\<close> has read its shape.
\<close>

definition forward_body ::
  "('t, 'a, 'k, 'p) Gemini_model \<Rightarrow> 'a tensor \<Rightarrow> 'a tensor option \<Rightarrow> 'a tensor option \<Rightarrow> 'k \<Rightarrow>
     ('a tensor, ('a, 'k, 'p) world) prog" where
  "forward_body self text img audio kw =
     (if exists img \<and> exists audio then
        bind_prog (call_audio self (the audio)) (\<lambda>audio'.
        bind_prog (call_img self (the img)) (\<lambda>img'.
        bind_prog (lift_result (torch_cat [text, img', audio'] 0)) (\<lambda>fused.
        call_decoder self text (Some fused) kw)))
      else if exists img then
        bind_prog (call_img self (the img)) (\<lambda>img'.
        call_decoder self text (Some img') kw)
      else if exists audio then
        bind_prog (call_audio self (the audio)) (\<lambda>audio'.
        call_decoder self text (Some audio') kw)
      else
        call_decoder self text None kw)"

text \<open>
  \<^verbatim>\<open>forward(self, text=None, img=None, audio=None, *args, **kwargs)\<close>. Line 130,
  \<^verbatim>\<open>print(f"Text shape: {text.shape}")\<close>, stands before the \<^verbatim>\<open>try\<close>: with
  \<^verbatim>\<open>text=None\<close> the attribute access raises \<^verbatim>\<open>AttributeError\<close> there. The handler
  prints \<^verbatim>\<open>"Failed in forward method: "\<close> and the exception, which \<^verbatim>\<open>print\<close> separates
  by a space, and re-raises with a bare \<^verbatim>\<open>raise\<close>.
\<close>

definition no_attribute_shape :: string where
  "no_attribute_shape =
     [CHR 0x27] @ ''NoneType'' @ [CHR 0x27] @ '' object has no attribute '' @
     [CHR 0x27] @ ''shape'' @ [CHR 0x27]"

text \<open>Reading \<^verbatim>\<open>text.shape\<close>: \<^verbatim>\<open>None\<close> has no such attribute.\<close>

definition getattr_shape :: "'a tensor option \<Rightarrow> (nat list, 'w) prog" where
  "getattr_shape text =
     (case text of
        None \<Rightarrow> raise_exn (Exn ''AttributeError'' no_attribute_shape)
      | Some t \<Rightarrow> return_value (shape t))"

text \<open>The handler of the \<^verbatim>\<open>try\<close> statement of \<^verbatim>\<open>forward\<close> (lines 158 to 160).\<close>

definition forward_handler :: "exn \<Rightarrow> ('r, ('a, 'k, 'p) world) prog" where
  "forward_handler e =
     bind_prog (print_line (''Failed in forward method: '' @ '' '' @ exn_str e)) (\<lambda>_.
     raise_exn e)"

definition forward ::
  "('t, 'a, 'k, 'p) Gemini_model \<Rightarrow> 'a tensor option \<Rightarrow> 'a tensor option \<Rightarrow> 'a tensor option \<Rightarrow>
     'k \<Rightarrow> ('a tensor, ('a, 'k, 'p) world) prog" where
  "forward self text img audio kw =
     bind_prog (getattr_shape text) (\<lambda>text_shape.
     bind_prog (print_line (''Text shape: '' @ show_size text_shape)) (\<lambda>_.
     try_except (forward_body self (the text) img audio kw) forward_handler))"

section \<open>\<^verbatim>\<open>Gemini.__init__\<close>\<close>

text \<open>
  The parameters of \<^verbatim>\<open>__init__\<close> with their defaults; \<open>extra_args\<close> is
  \<^verbatim>\<open>*args, **kwargs\<close>. \<^verbatim>\<open>patch_size\<close> and \<^verbatim>\<open>img_channels\<close> are accepted and never
  used: the image encoder is given \<^verbatim>\<open>patch_size=patches\<close>.
\<close>

record 'x config =
  num_tokens :: int
  max_seq_len :: int
  dim :: int
  depth :: int
  dim_head :: int
  heads :: int
  use_abs_pos_emb :: bool
  attn_flash :: bool
  attn_kv_heads :: int
  qk_norm :: bool
  attn_qk_norm :: bool
  attn_qk_norm_dim_scale :: bool
  patches :: int
  patch_size :: int
  img_channels :: int
  audio_seq_len :: int
  extra_args :: 'x

definition default_config :: "'x \<Rightarrow> 'x config" where
  "default_config x =
     \<lparr>num_tokens = 50432, max_seq_len = 32052, dim = 2560, depth = 32, dim_head = 128,
      heads = 24, use_abs_pos_emb = False, attn_flash = True, attn_kv_heads = 2,
      qk_norm = True, attn_qk_norm = True, attn_qk_norm_dim_scale = True, patches = 16,
      patch_size = 16, img_channels = 3, audio_seq_len = 128, extra_args = x\<rparr>"

text \<open>
  The five classes \<^verbatim>\<open>__init__\<close> instantiates are imported from
  \<^verbatim>\<open>gemini_torch.transformer\<close>, \<^verbatim>\<open>gemini_torch.utils\<close> and \<^verbatim>\<open>zeta.structs\<close>; they are
  parameters of the model. Each takes the keyword arguments in the order of the call
  in the source, may raise, and runs on the state of the sub-modules.
\<close>

record ('x, 'l, 't, 'd, 'i, 'u, 'p) classes =
  Decoder ::
    "int \<Rightarrow> int \<Rightarrow> int \<Rightarrow> int \<Rightarrow> bool \<Rightarrow> int \<Rightarrow> bool \<Rightarrow> bool \<Rightarrow> bool \<Rightarrow> 'x \<Rightarrow>
       'p \<Rightarrow> (exn + 'l) \<times> 'p"
  Transformer :: "int \<Rightarrow> int \<Rightarrow> bool \<Rightarrow> 'l \<Rightarrow> 'p \<Rightarrow> (exn + 't) \<times> 'p"
  AutoregressiveWrapper :: "'t \<Rightarrow> 'p \<Rightarrow> (exn + 'd) \<times> 'p"
  ImageToTextEmbeddings :: "int \<Rightarrow> int \<Rightarrow> int \<Rightarrow> 'x \<Rightarrow> 'p \<Rightarrow> (exn + 'i) \<times> 'p"
  AudioToEmbeddings :: "int \<Rightarrow> int \<Rightarrow> 'x \<Rightarrow> 'p \<Rightarrow> (exn + 'u) \<times> 'p"

definition construct :: "('p \<Rightarrow> (exn + 'r) \<times> 'p) \<Rightarrow> ('r, ('a, 'k, 'p) world) prog" where
  "construct c w = (case c (params w) of (r, p') \<Rightarrow> (r, w\<lparr>params := p'\<rparr>))"

text \<open>
  The body of the \<^verbatim>\<open>try\<close> statement of \<^verbatim>\<open>__init__\<close> (lines 64 to 98). The argument
  \<^verbatim>\<open>attn_layers=Decoder(...)\<close> is evaluated before \<^verbatim>\<open>Transformer\<close> is called.
\<close>

definition init_body ::
  "('x, 'l, 't, 'd, 'i, 'u, 'p) classes \<Rightarrow> 'x config \<Rightarrow>
     (('t, 'd, 'i, 'u) Gemini, ('a, 'k, 'p) world) prog" where
  "init_body lib c =
     bind_prog (construct (Decoder lib (dim c) (depth c) (dim_head c) (heads c) (attn_flash c)
                  (attn_kv_heads c) (qk_norm c) (attn_qk_norm c) (attn_qk_norm_dim_scale c)
                  (extra_args c))) (\<lambda>attn_layers.
     bind_prog (construct (Transformer lib (num_tokens c) (max_seq_len c) (use_abs_pos_emb c)
                  attn_layers)) (\<lambda>self_gemini.
     bind_prog (construct (AutoregressiveWrapper lib self_gemini)) (\<lambda>self_decoder.
     bind_prog (construct (ImageToTextEmbeddings lib (patches c) (dim c) (max_seq_len c)
                  (extra_args c))) (\<lambda>self_img.
     bind_prog (construct (AudioToEmbeddings lib (audio_seq_len c) (max_seq_len c)
                  (extra_args c))) (\<lambda>self_audio.
     return_value \<lparr>gemini = self_gemini, decoder = self_decoder,
                   img_to_text_embedding = self_img,
                   audio_to_lang_embedding = self_audio\<rparr>)))))"

text \<open>
  The handler (lines 100 to 102) prints \<^verbatim>\<open>"Failed to initialize gemini: "\<close> and the
  exception, and raises the same exception again with \<^verbatim>\<open>raise e\<close>. The caller of a
  constructor that raises receives no object, which is the outcome \<open>Inl e\<close>.
  \<^verbatim>\<open>super().__init__()\<close>, before the \<^verbatim>\<open>try\<close>, builds no sub-module and is left out.
\<close>

definition init_handler :: "exn \<Rightarrow> ('r, ('a, 'k, 'p) world) prog" where
  "init_handler e =
     bind_prog (print_line (''Failed to initialize gemini: '' @ '' '' @ exn_str e)) (\<lambda>_.
     raise_exn e)"

definition Gemini_init ::
  "('x, 'l, 't, 'd, 'i, 'u, 'p) classes \<Rightarrow> 'x config \<Rightarrow>
     (('t, 'd, 'i, 'u) Gemini, ('a, 'k, 'p) world) prog" where
  "Gemini_init lib c = try_except (init_body lib c) init_handler"

text \<open>
  Two outcomes of \<^verbatim>\<open>__init__\<close> when a constructor call raised \<open>e\<close> with the
  sub-module state \<open>p\<close>. Logged: the exception itself, no model, and one more line on
  the standard output. Unlogged: the exception itself, no model, nothing printed.
  \<open>init_raised\<close> is the first for an instance of \<^verbatim>\<open>Exception\<close> and the second for any
  other exception.
\<close>

definition logged_and_reraised ::
  "((exn + 'm) \<times> ('a, 'k, 'p) world) \<Rightarrow> ('a, 'k, 'p) world \<Rightarrow> exn \<Rightarrow> 'p \<Rightarrow> bool" where
  "logged_and_reraised outcome w e p =
     (outcome =
        (Inl e, w\<lparr>stdout := stdout w @ [''Failed to initialize gemini: '' @ '' '' @ exn_str e],
                  params := p\<rparr>))"

definition reraised_unlogged ::
  "((exn + 'm) \<times> ('a, 'k, 'p) world) \<Rightarrow> ('a, 'k, 'p) world \<Rightarrow> exn \<Rightarrow> 'p \<Rightarrow> bool" where
  "reraised_unlogged outcome w e p = (outcome = (Inl e, w\<lparr>params := p\<rparr>))"

definition init_raised ::
  "((exn + 'm) \<times> ('a, 'k, 'p) world) \<Rightarrow> ('a, 'k, 'p) world \<Rightarrow> exn \<Rightarrow> 'p \<Rightarrow> bool" where
  "init_raised outcome w e p =
     (if is_Exception e then logged_and_reraised outcome w e p
      else reraised_unlogged outcome w e p)"

section \<open>The dispatch as the specification words it\<close>

text \<open>
  The specification describes \<^verbatim>\<open>forward\<close> as a choice among four behaviours by the
  presence of the image and of the audio, and recommends a discriminated union. The
  definitions of this section follow those words, to be compared with
  \<open>forward_body\<close>, which follows the \<^verbatim>\<open>if/elif\<close> chain of the source. The
  specification leaves the order of the two encoder calls open, and the concatenation
  is the call the source makes: both are as in the source here.
\<close>

datatype 'a modalities =
    ImageAndAudio "'a tensor" "'a tensor"
  | ImageOnly "'a tensor"
  | AudioOnly "'a tensor"
  | TextAlone

fun classify :: "'a tensor option \<Rightarrow> 'a tensor option \<Rightarrow> 'a modalities" where
  "classify (Some i) (Some a) = ImageAndAudio i a"
| "classify (Some i) None = ImageOnly i"
| "classify None (Some a) = AudioOnly a"
| "classify None None = TextAlone"

text \<open>The number of the behaviour in the list of section 4.3 of the specification.\<close>

fun behaviour_number :: "'a modalities \<Rightarrow> nat" where
  "behaviour_number (ImageAndAudio i a) = 1"
| "behaviour_number (ImageOnly i) = 2"
| "behaviour_number (AudioOnly a) = 3"
| "behaviour_number TextAlone = 4"

definition select_by_presence :: "bool \<Rightarrow> bool \<Rightarrow> nat" where
  "select_by_presence img_present audio_present =
     (if img_present then (if audio_present then 1 else 2)
      else (if audio_present then 3 else 4))"

fun behaviour ::
  "('t, 'a, 'k, 'p) Gemini_model \<Rightarrow> 'a tensor \<Rightarrow> 'k \<Rightarrow> 'a modalities \<Rightarrow>
     ('a tensor, ('a, 'k, 'p) world) prog" where
  "behaviour self text kw (ImageAndAudio i a) =
     bind_prog (call_audio self a) (\<lambda>audio_embeds.
     bind_prog (call_img self i) (\<lambda>img_embeds.
     bind_prog (lift_result (torch_cat [text, img_embeds, audio_embeds] 0)) (\<lambda>fused.
     call_decoder self text (Some fused) kw)))"
| "behaviour self text kw (ImageOnly i) =
     bind_prog (call_img self i) (\<lambda>img_embeds. call_decoder self text (Some img_embeds) kw)"
| "behaviour self text kw (AudioOnly a) =
     bind_prog (call_audio self a) (\<lambda>audio_embeds.
     call_decoder self text (Some audio_embeds) kw)"
| "behaviour self text kw TextAlone = call_decoder self text None kw"

section \<open>Counting calls\<close>

definition audio_calls :: "('a, 'k) event list \<Rightarrow> nat" where
  "audio_calls evs = length (filter is_AudioCall evs)"

definition img_calls :: "('a, 'k) event list \<Rightarrow> nat" where
  "img_calls evs = length (filter is_ImgCall evs)"

definition decoder_calls :: "('a, 'k) event list \<Rightarrow> nat" where
  "decoder_calls evs = length (filter is_DecoderCall evs)"

text \<open>The events a statement adds to the world it starts in.\<close>

definition new_calls :: "('a, 'k, 'p) world \<Rightarrow> ('a, 'k, 'p) world \<Rightarrow> ('a, 'k) event list" where
  "new_calls w w' = drop (length (calls w)) (calls w')"

text \<open>
  Modelled from the spec: the forward passes of the decoder and of the two
  encoders, whose code is not among the sources. It says of the parameters of the model
  that they are "never mutated during forward evaluation": a call of such a sub-module
  leaves the state of the sub-modules as it found it.
\<close>

definition encoder_read_only :: "('a, 'p) encoder \<Rightarrow> bool" where
  "encoder_read_only f = (\<forall>x p. snd (f x p) = p)"

definition decoder_read_only :: "('a, 'k, 'p) autoregressive \<Rightarrow> bool" where
  "decoder_read_only f = (\<forall>x pe kw p. snd (f x pe kw p) = p)"

text \<open>
  What the recorded calls, made again in their order, write to the state of the
  sub-modules.
\<close>

fun call_effect :: "('t, 'a, 'k, 'p) Gemini_model \<Rightarrow> 'p \<Rightarrow> ('a, 'k) event \<Rightarrow> 'p" where
  "call_effect self p (AudioCall x) = snd (audio_to_lang_embedding self x p)"
| "call_effect self p (ImgCall x) = snd (img_to_text_embedding self x p)"
| "call_effect self p (DecoderCall t pe kw) = snd (decoder self t pe kw p)"

definition written_by ::
  "('t, 'a, 'k, 'p) Gemini_model \<Rightarrow> ('a, 'k) event list \<Rightarrow> 'p \<Rightarrow> 'p" where
  "written_by self evs p = foldl (call_effect self) p evs"

text \<open>
  A world \<open>w'\<close> reached from \<open>w\<close> by sub-module calls alone, as far as the events and
  the state of the sub-modules go.
\<close>

definition traced ::
  "('t, 'a, 'k, 'p) Gemini_model \<Rightarrow> ('a, 'k, 'p) world \<Rightarrow> ('a, 'k, 'p) world \<Rightarrow> bool" where
  "traced self w w' =
     (\<exists>evs. calls w' = calls w @ evs \<and> params w' = written_by self evs (params w))"

section \<open>Test doubles and concrete inputs\<close>

text \<open>
  Stand-ins for the sub-modules, for evaluating \<^verbatim>\<open>forward\<close> and \<^verbatim>\<open>__init__\<close> on
  concrete inputs: an encoder that returns a fixed embedding, a decoder that returns
  the prepended embeddings (the text when there are none), and their raising
  counterparts.
\<close>

definition stub_encoder :: "'a tensor \<Rightarrow> ('a, 'p) encoder" where
  "stub_encoder embeds x p = (Inr embeds, p)"


definition stub_decoder :: "('a, 'k, 'p) autoregressive" where
  "stub_decoder text prepend_embeds kw p =
     (Inr (case prepend_embeds of None \<Rightarrow> text | Some pe \<Rightarrow> pe), p)"

definition raising_decoder :: "exn \<Rightarrow> ('a, 'k, 'p) autoregressive" where
  "raising_decoder e text prepend_embeds kw p = (Inl e, p)"

definition stub_model :: "'a tensor \<Rightarrow> 'a tensor \<Rightarrow> (unit, 'a, 'k, 'p) Gemini_model" where
  "stub_model img_embeds audio_embeds =
     \<lparr>gemini = (), decoder = stub_decoder,
      img_to_text_embedding = stub_encoder img_embeds,
      audio_to_lang_embedding = stub_encoder audio_embeds\<rparr>"

definition world0 :: "(int, unit, nat) world" where
  "world0 = \<lparr>stdout = [], calls = [], params = 0\<rparr>"

definition boom :: exn where
  "boom = Exn ''RuntimeError'' ''boom''"

text \<open>What \<^verbatim>\<open>Ctrl-C\<close> raises: not an instance of \<^verbatim>\<open>Exception\<close>, with an empty text.\<close>

definition keyboard_interrupt :: exn where
  "keyboard_interrupt = BaseExn ''KeyboardInterrupt'' []"

definition tensor_of :: "nat list \<Rightarrow> int list \<Rightarrow> int tensor" where
  "tensor_of s xs = \<lparr>shape = s, elems = xs\<rparr>"

text \<open>
  A text of batch size 2 with one position of hidden size 1, an image
  \<open>[batch, channels, height, width]\<close>, an audio \<open>[batch, audio_seq_len]\<close>, and
  embeddings \<open>[batch, seq_len, dim]\<close> for the stub encoders to return.
\<close>

definition text0 :: "int tensor" where
  "text0 = tensor_of [2, 1, 1] [1, 2]"

definition img0 :: "int tensor" where
  "img0 = tensor_of [2, 1, 1, 1] [0, 0]"

definition audio0 :: "int tensor" where
  "audio0 = tensor_of [2, 1] [9, 9]"

definition img_embeds0 :: "int tensor" where
  "img_embeds0 = tensor_of [2, 1, 1] [3, 4]"

definition audio_embeds0 :: "int tensor" where
  "audio_embeds0 = tensor_of [2, 1, 1] [5, 6]"

definition model0 :: "(unit, int, unit, nat) Gemini_model" where
  "model0 = stub_model img_embeds0 audio_embeds0"

text \<open>Image embeddings of two positions, and audio embeddings of batch size 3.\<close>

definition img_embeds_seq2 :: "int tensor" where
  "img_embeds_seq2 = tensor_of [2, 2, 1] [3, 4, 5, 6]"

definition audio_embeds_batch3 :: "int tensor" where
  "audio_embeds_batch3 = tensor_of [3, 1, 1] [5, 6, 7]"

definition audio_batch3 :: "int tensor" where
  "audio_batch3 = tensor_of [3, 1] [9, 9, 9]"

text \<open>An encoder that counts its calls in the state of the sub-modules.\<close>

definition counting_encoder :: "'a tensor \<Rightarrow> ('a, nat) encoder" where
  "counting_encoder embeds x p = (Inr embeds, Suc p)"

text \<open>
  Stand-ins for the five classes: \<^verbatim>\<open>Decoder\<close> rejects a head count that is not
  positive, \<^verbatim>\<open>AudioToEmbeddings\<close> an audio length that is not positive, and every
  construction that succeeds adds one to the state of the sub-modules.
\<close>

definition stub_classes ::
  "(unit, unit, unit, (int, unit, nat) autoregressive, (int, nat) encoder, (int, nat) encoder,
    nat) classes" where
  "stub_classes =
     \<lparr>Decoder = (\<lambda>dim depth dim_head heads attn_flash attn_kv_heads qk_norm attn_qk_norm
                   attn_qk_norm_dim_scale x p.
                  if heads \<le> 0 then (Inl (Exn ''ValueError'' ''heads must be positive''), p)
                  else (Inr (), Suc p)),
      Transformer = (\<lambda>num_tokens max_seq_len use_abs_pos_emb attn_layers p. (Inr (), Suc p)),
      AutoregressiveWrapper = (\<lambda>net p. (Inr stub_decoder, Suc p)),
      ImageToTextEmbeddings =
        (\<lambda>patch_size dim seq_len x p. (Inr (stub_encoder img_embeds0), Suc p)),
      AudioToEmbeddings = (\<lambda>audio_seq_len seqlen x p.
                  if audio_seq_len \<le> 0
                  then (Inl (Exn ''ValueError'' ''audio_seq_len must be positive''), p)
                  else (Inr (stub_encoder audio_embeds0), Suc p))\<rparr>"

text \<open>The same classes, with the construction of the wrapper interrupted.\<close>

definition interrupted_classes ::
  "(unit, unit, unit, (int, unit, nat) autoregressive, (int, nat) encoder, (int, nat) encoder,
    nat) classes" where
  "interrupted_classes =
     stub_classes\<lparr>AutoregressiveWrapper := (\<lambda>net p. (Inl keyboard_interrupt, p))\<rparr>"

section \<open>Running the statements\<close>

lemma forward_None:
  "forward self None img audio kw w = (Inl (Exn ''AttributeError'' no_attribute_shape), w)"
  by (simp add: forward_def getattr_shape_def bind_prog_def raise_exn_def)

lemma forward_Some:
  "forward self (Some t) img audio kw w =
     (case forward_body self t img audio kw
             (w\<lparr>stdout := stdout w @ [''Text shape: '' @ show_size (shape t)]\<rparr>) of
        (Inl e, w') \<Rightarrow>
          (Inl e,
           if is_Exception e
           then w'\<lparr>stdout := stdout w' @ [''Failed in forward method: '' @ '' '' @ exn_str e]\<rparr>
           else w')
      | (Inr x, w') \<Rightarrow> (Inr x, w'))"
  by (simp add: forward_def getattr_shape_def bind_prog_def raise_exn_def return_value_def
      print_line_def try_except_def forward_handler_def split: prod.splits sum.splits)

lemma call_img_eq:
  "call_img self x w =
     (fst (img_to_text_embedding self x (params w)),
      w\<lparr>calls := calls w @ [ImgCall x],
        params := snd (img_to_text_embedding self x (params w))\<rparr>)"
  by (simp add: call_img_def split: prod.splits)

lemma call_audio_eq:
  "call_audio self x w =
     (fst (audio_to_lang_embedding self x (params w)),
      w\<lparr>calls := calls w @ [AudioCall x],
        params := snd (audio_to_lang_embedding self x (params w))\<rparr>)"
  by (simp add: call_audio_def split: prod.splits)

lemma call_decoder_eq:
  "call_decoder self t pe kw w =
     (fst (decoder self t pe kw (params w)),
      w\<lparr>calls := calls w @ [DecoderCall t pe kw],
        params := snd (decoder self t pe kw (params w))\<rparr>)"
  by (simp add: call_decoder_def split: prod.splits)

text \<open>The four branches of the \<^verbatim>\<open>if/elif\<close> chain, one per pattern of presence.\<close>

lemma forward_body_both:
  "forward_body self t (Some i) (Some a) kw =
     bind_prog (call_audio self a) (\<lambda>audio'.
     bind_prog (call_img self i) (\<lambda>img'.
     bind_prog (lift_result (torch_cat [t, img', audio'] 0)) (\<lambda>fused.
     call_decoder self t (Some fused) kw)))"
  by (simp add: forward_body_def exists_def)

lemma forward_body_image_only:
  "forward_body self t (Some i) None kw =
     bind_prog (call_img self i) (\<lambda>img'. call_decoder self t (Some img') kw)"
  by (simp add: forward_body_def exists_def)

lemma forward_body_audio_only:
  "forward_body self t None (Some a) kw =
     bind_prog (call_audio self a) (\<lambda>audio'. call_decoder self t (Some audio') kw)"
  by (simp add: forward_body_def exists_def)

lemma forward_body_text_alone:
  "forward_body self t None None kw = call_decoder self t None kw"
  by (simp add: forward_body_def exists_def)

lemma forward_body_dispatch:
  "forward_body self t img audio kw = behaviour self t kw (classify img audio)"
  by (cases img; cases audio) (simp_all add: forward_body_def exists_def)

lemma behaviour_number_classify:
  "behaviour_number (classify img audio) = select_by_presence (exists img) (exists audio)"
  by (cases img; cases audio) (simp_all add: select_by_presence_def exists_def)

lemmas run_defs = forward_Some forward_body_both bind_prog_def lift_result_def
  call_img_eq call_audio_eq call_decoder_eq new_calls_def img_calls_def audio_calls_def
  decoder_calls_def

subsection \<open>What a statement leaves alone\<close>

text \<open>
  A component \<open>g\<close> of the world that neither part of a sequence changes is not changed
  by the sequence, whether it raises or returns.
\<close>

lemma bind_prog_keeps:
  assumes "\<And>w. g (snd (m w)) = g w" and "\<And>x w. g (snd (f x w)) = g w"
  shows "g (snd (bind_prog m f w)) = g w"
proof (cases "m w")
  case (Pair r w1)
  have "g w1 = g w" using assms(1) [of w] Pair by simp
  then show ?thesis using Pair assms(2)
    by (cases r) (simp_all add: bind_prog_def)
qed

lemma lift_result_keeps: "g (snd (lift_result r w)) = g w"
  by (simp add: lift_result_def)

lemma call_keeps_stdout:
  "stdout (snd (call_img self x w)) = stdout w"
  "stdout (snd (call_audio self x w)) = stdout w"
  "stdout (snd (call_decoder self t pe kw w)) = stdout w"
  by (simp_all add: call_img_eq call_audio_eq call_decoder_eq)

lemma behaviour_keeps_stdout:
  "stdout (snd (behaviour self t kw m w)) = stdout w"
  by (cases m) (simp_all add: bind_prog_keeps lift_result_keeps call_keeps_stdout)

lemma forward_body_keeps_stdout:
  "stdout (snd (forward_body self t img audio kw w)) = stdout w"
  by (simp add: forward_body_dispatch behaviour_keeps_stdout)

lemma call_keeps_params:
  "encoder_read_only (img_to_text_embedding self) \<Longrightarrow>
     params (snd (call_img self x w)) = params w"
  "encoder_read_only (audio_to_lang_embedding self) \<Longrightarrow>
     params (snd (call_audio self x w)) = params w"
  "decoder_read_only (decoder self) \<Longrightarrow>
     params (snd (call_decoder self t pe kw w)) = params w"
  by (simp_all add: call_img_eq call_audio_eq call_decoder_eq encoder_read_only_def
      decoder_read_only_def)

lemma behaviour_keeps_params:
  assumes "encoder_read_only (img_to_text_embedding self)"
    and "encoder_read_only (audio_to_lang_embedding self)"
    and "decoder_read_only (decoder self)"
  shows "params (snd (behaviour self t kw m w)) = params w"
  using assms by (cases m) (simp_all add: bind_prog_keeps lift_result_keeps call_keeps_params)

text \<open>
  Every change \<^verbatim>\<open>forward\<close> makes to the state of the sub-modules is made by a
  sub-module call it records.
\<close>

lemma traced_refl: "traced self w w"
  by (simp add: traced_def written_by_def)

lemma traced_stdout_after: "traced self w w' \<Longrightarrow> traced self w (w'\<lparr>stdout := s\<rparr>)"
  by (simp add: traced_def)

lemma traced_stdout_before: "traced self (w\<lparr>stdout := s\<rparr>) w' \<Longrightarrow> traced self w w'"
  by (simp add: traced_def)

lemma traced_trans: "traced self w w1 \<Longrightarrow> traced self w1 w2 \<Longrightarrow> traced self w w2"
  by (auto simp add: traced_def written_by_def)

lemma traced_call:
  "traced self w (snd (call_img self x w))"
  "traced self w (snd (call_audio self x w))"
  "traced self w (snd (call_decoder self t pe kw w))"
  by (simp_all add: traced_def written_by_def call_img_eq call_audio_eq call_decoder_eq)

lemma traced_bind:
  assumes "\<And>w. traced self w (snd (m w))" and "\<And>x w. traced self w (snd (f x w))"
  shows "traced self w (snd (bind_prog m f w))"
proof (cases "m w")
  case (Pair r w1)
  have first: "traced self w w1" using assms(1) [of w] Pair by simp
  show ?thesis
  proof (cases r)
    case (Inl e)
    with Pair first show ?thesis by (simp add: bind_prog_def)
  next
    case (Inr x)
    with Pair have "snd (bind_prog m f w) = snd (f x w1)" by (simp add: bind_prog_def)
    with traced_trans [OF first assms(2) [of w1 x]] show ?thesis by simp
  qed
qed

lemma traced_behaviour: "traced self w (snd (behaviour self t kw m w))"
  by (cases m) (simp_all add: traced_bind traced_call lift_result_def traced_refl)

lemma traced_forward: "traced self w (snd (forward self text img audio kw w))"
proof (cases "text")
  case None
  then show ?thesis by (simp add: forward_None traced_refl)
next
  case (Some t)
  let ?w1 = "w\<lparr>stdout := stdout w @ [''Text shape: '' @ show_size (shape t)]\<rparr>"
  have body: "traced self w (snd (forward_body self t img audio kw ?w1))"
    using traced_behaviour [of self ?w1 t kw "classify img audio"]
    by (simp add: forward_body_dispatch traced_stdout_before)
  show ?thesis
  proof (cases "forward_body self t img audio kw ?w1")
    case (Pair r w2)
    with body Some show ?thesis
      by (cases r) (simp_all add: forward_Some traced_stdout_after)
  qed
qed

lemma forward_writes_only_in_calls:
  "params (snd (forward self text img audio kw w)) =
     written_by self (new_calls w (snd (forward self text img audio kw w))) (params w)"
  using traced_forward [of self w "text" img audio kw]
  by (auto simp add: traced_def new_calls_def)

lemma forward_read_only:
  assumes "encoder_read_only (img_to_text_embedding self)"
    and "encoder_read_only (audio_to_lang_embedding self)"
    and "decoder_read_only (decoder self)"
  shows "params (snd (forward self text img audio kw w)) = params w"
proof (cases "text")
  case None
  then show ?thesis by (simp add: forward_None)
next
  case (Some t)
  let ?w1 = "w\<lparr>stdout := stdout w @ [''Text shape: '' @ show_size (shape t)]\<rparr>"
  have body: "params (snd (forward_body self t img audio kw ?w1)) = params w"
    using behaviour_keeps_params [OF assms, of t kw "classify img audio" ?w1]
    by (simp add: forward_body_dispatch)
  show ?thesis
  proof (cases "forward_body self t img audio kw ?w1")
    case (Pair r w2)
    with body Some show ?thesis
      by (cases r) (simp_all add: forward_Some)
  qed
qed

subsection \<open>Shapes out of \<^verbatim>\<open>torch.cat\<close>\<close>

text \<open>
  For three tensors \<open>[batch, seq_len, dim]\<close>: along dimension 0, the default, the
  sequence lengths and the hidden sizes must agree and the batch sizes add up; along
  dimension 1 the batch sizes and the hidden sizes must agree and the sequence lengths
  add up.
\<close>

lemma torch_cat0_rank3:
  assumes "shape t = [b1, s1, d1]" and "shape i = [b2, s2, d2]" and "shape a = [b3, s3, d3]"
  shows "map_sum id shape (torch_cat [t, i, a] 0) =
     (if s2 = s1 \<and> d2 = d1 \<and> s3 = s1 \<and> d3 = d1 then Inr [b1 + b2 + b3, s1, d1]
      else Inl (Exn ''RuntimeError''
                  ''Sizes of tensors must match except in the concatenating dimension''))"
  using assms by (auto simp add: torch_cat_def legacy_empty_def same_except_def)

lemma torch_cat1_rank3:
  assumes "shape t = [b1, s1, d1]" and "shape i = [b2, s2, d2]" and "shape a = [b3, s3, d3]"
  shows "map_sum id shape (torch_cat [t, i, a] 1) =
     (if b2 = b1 \<and> d2 = d1 \<and> b3 = b1 \<and> d3 = d1 then Inr [b1, s1 + s2 + s3, d1]
      else Inl (Exn ''RuntimeError''
                  ''Sizes of tensors must match except in the concatenating dimension''))"
  using assms by (auto simp add: torch_cat_def legacy_empty_def same_except_def)

subsection \<open>Concrete runs\<close>

lemma show_size_text0: "show_size (shape text0) = ''torch.Size([2, 1, 1])''"
  by code_simp


text \<open>A sub-module that writes the state of the sub-modules is seen to do so.\<close>

lemma counting_encoder_changes_params:
  "params (snd (forward
      (model0
         \<lparr>img_to_text_embedding := counting_encoder img_embeds0\<rparr>)
      (Some text0) (Some img0) None () world0)) = 1"
  by code_simp

lemma init_with_defaults:
  "fst (Gemini_init stub_classes (default_config ()) world0) =
     Inr \<lparr>gemini = (), decoder = stub_decoder, img_to_text_embedding = stub_encoder img_embeds0,
          audio_to_lang_embedding = stub_encoder audio_embeds0\<rparr>"
  by (simp add: Gemini_init_def init_body_def try_except_def bind_prog_def construct_def
      return_value_def stub_classes_def default_config_def world0_def)

section \<open>The dispatch of \<^verbatim>\<open>forward\<close>\<close>

text \<open>
  Claim C1. Every call of \<^verbatim>\<open>forward\<close> reads and prints the shape of the text and then
  runs, inside the \<^verbatim>\<open>try\<close> statement, exactly the one behaviour that \<open>classify\<close>
  selects from the image and the audio: with both, the audio and the image are
  encoded and \<^verbatim>\<open>torch.cat((text, img, audio))\<close> is passed to the decoder as
  \<^verbatim>\<open>prepend_embeds\<close>; with the image only, the encoded image is the prepend; with the
  audio only, the encoded audio is; with neither, the decoder is called on the text
  with no prepend. Which of the four it is depends on nothing but whether the image
  and the audio are present. Each behaviour is a sequence of calls that stops at the
  first exception; with the text absent the first statement raises (claim C10).
\<close>

theorem forward_selects_one_of_four:
  "forward self text img audio kw =
     bind_prog (getattr_shape text) (\<lambda>text_shape.
     bind_prog (print_line (''Text shape: '' @ show_size text_shape)) (\<lambda>_.
     try_except (behaviour self (the text) kw (classify img audio)) forward_handler))
   \<and> behaviour_number (classify img audio) = select_by_presence (exists img) (exists audio)"
  by (simp add: forward_def forward_body_dispatch behaviour_number_classify)

section \<open>The fusion of text, image and audio\<close>

text \<open>
  Claim C2 says that the fusion concatenates along the sequence axis, so that the batch
  size is kept and the sequence lengths add up. The source calls
  \<^verbatim>\<open>torch.cat((text, img, audio))\<close> without \<^verbatim>\<open>dim\<close>, which is dimension 0, the batch
  axis of the shapes \<open>[batch, seq_len, dim]\<close> its docstring gives. Evaluated on a text
  and embeddings of shape \<open>[2, 1, 1]\<close>, \<^verbatim>\<open>forward\<close> hands the decoder a prepend of
  shape \<open>[6, 1, 1]\<close>, where the concatenation along dimension 1 has shape \<open>[2, 3, 1]\<close>;
  with image embeddings of two positions, \<open>[2, 2, 1]\<close>, it raises, where the
  concatenation along dimension 1 has shape \<open>[2, 4, 1]\<close>.
\<close>

theorem forward_concatenates_along_batch_axis:
  "new_calls world0 (snd (forward model0
       (Some text0) (Some img0) (Some audio0) () world0)) =
     [AudioCall audio0, ImgCall img0,
      DecoderCall text0 (Some (tensor_of [6, 1, 1] [1, 2, 3, 4, 5, 6])) ()]
   \<and> torch_cat [text0, img_embeds0, audio_embeds0] 1 =
       Inr (tensor_of [2, 3, 1] [1, 3, 5, 2, 4, 6])
   \<and> fst (forward (stub_model img_embeds_seq2 audio_embeds0)
       (Some text0) (Some img0) (Some audio0) () world0) =
       Inl (Exn ''RuntimeError''
              ''Sizes of tensors must match except in the concatenating dimension'')
   \<and> torch_cat [text0, img_embeds_seq2, audio_embeds0] 1 =
       Inr (tensor_of [2, 4, 1] [1, 3, 4, 5, 2, 5, 6, 6])"
  by code_simp




section \<open>The single-modality calls and the text-only call\<close>

text \<open>
  Claim C4. For every text tensor, \<^verbatim>\<open>forward\<close> called with the text alone (no image, no
  audio) returns exactly what the direct call \<^verbatim>\<open>self.decoder(text, *args, **kwargs)\<close>
  returns, the exception it raises included, and leaves the sub-modules in the state
  that call leaves them in. The only sub-module call made is that one call of the
  decoder, with the same extra arguments and without \<^verbatim>\<open>prepend_embeds\<close>; no encoder is
  invoked.
\<close>

theorem forward_text_only_is_decoder_call:
  "fst (forward self (Some text) None None kw w) = fst (call_decoder self text None kw w)
   \<and> params (snd (forward self (Some text) None None kw w)) =
       params (snd (call_decoder self text None kw w))
   \<and> new_calls w (snd (forward self (Some text) None None kw w)) = [DecoderCall text None kw]
   \<and> img_calls (new_calls w (snd (forward self (Some text) None None kw w))) = 0
   \<and> audio_calls (new_calls w (snd (forward self (Some text) None None kw w))) = 0"
  by (simp add: forward_Some forward_body_text_alone call_decoder_eq new_calls_def
      img_calls_def audio_calls_def split: sum.splits)

lemma image_only_calls:
  "case forward self (Some text) (Some img) None kw w of (r, w') \<Rightarrow>
      img_calls (new_calls w w') = 1 \<and> audio_calls (new_calls w w') = 0 \<and>
      (case img_to_text_embedding self img (params w) of
         (Inl e, p) \<Rightarrow> r = Inl e \<and> new_calls w w' = [ImgCall img]
       | (Inr img_embeds, p) \<Rightarrow>
           new_calls w w' = [ImgCall img, DecoderCall text (Some img_embeds) kw] \<and>
           r = fst (decoder self text (Some img_embeds) kw p))"
proof (cases "img_to_text_embedding self img (params w)")
  case (Pair r p)
  show ?thesis
  proof (cases r)
    case (Inl e)
    with Pair show ?thesis
      by (simp add: forward_Some forward_body_image_only bind_prog_def call_img_eq
          new_calls_def img_calls_def audio_calls_def)
  next
    case (Inr img_embeds)
    with Pair show ?thesis
      by (simp add: forward_Some forward_body_image_only bind_prog_def call_img_eq
          call_decoder_eq new_calls_def img_calls_def audio_calls_def split: sum.splits)
  qed
qed

lemma audio_only_calls:
  "case forward self (Some text) None (Some audio) kw w of (r, w') \<Rightarrow>
      audio_calls (new_calls w w') = 1 \<and> img_calls (new_calls w w') = 0 \<and>
      (case audio_to_lang_embedding self audio (params w) of
         (Inl e, p) \<Rightarrow> r = Inl e \<and> new_calls w w' = [AudioCall audio]
       | (Inr audio_embeds, p) \<Rightarrow>
           new_calls w w' = [AudioCall audio, DecoderCall text (Some audio_embeds) kw] \<and>
           r = fst (decoder self text (Some audio_embeds) kw p))"
proof (cases "audio_to_lang_embedding self audio (params w)")
  case (Pair r p)
  show ?thesis
  proof (cases r)
    case (Inl e)
    with Pair show ?thesis
      by (simp add: forward_Some forward_body_audio_only bind_prog_def call_audio_eq
          new_calls_def img_calls_def audio_calls_def)
  next
    case (Inr audio_embeds)
    with Pair show ?thesis
      by (simp add: forward_Some forward_body_audio_only bind_prog_def call_audio_eq
          call_decoder_eq new_calls_def img_calls_def audio_calls_def split: sum.splits)
  qed
qed

text \<open>
  Claim C5. With the text and the image and no audio, the image encoder is invoked
  exactly once and the audio encoder not at all; the embeddings the image encoder
  returns are the \<^verbatim>\<open>prepend_embeds\<close> of the one call of the decoder, whose outcome is
  the outcome of \<^verbatim>\<open>forward\<close> (when the encoder raises instead, its exception is).
  Symmetrically, with the text and the audio and no image, the audio encoder is
  invoked exactly once, the image encoder not at all, and the audio embeddings are the
  prepend.
\<close>

theorem forward_single_modality_calls:
  "(case forward self (Some text) (Some img) None kw w of (r, w') \<Rightarrow>
      img_calls (new_calls w w') = 1 \<and> audio_calls (new_calls w w') = 0 \<and>
      (case img_to_text_embedding self img (params w) of
         (Inl e, p) \<Rightarrow> r = Inl e \<and> new_calls w w' = [ImgCall img]
       | (Inr img_embeds, p) \<Rightarrow>
           new_calls w w' = [ImgCall img, DecoderCall text (Some img_embeds) kw] \<and>
           r = fst (decoder self text (Some img_embeds) kw p)))
   \<and>
   (case forward self (Some text) None (Some audio) kw w of (r, w') \<Rightarrow>
      audio_calls (new_calls w w') = 1 \<and> img_calls (new_calls w w') = 0 \<and>
      (case audio_to_lang_embedding self audio (params w) of
         (Inl e, p) \<Rightarrow> r = Inl e \<and> new_calls w w' = [AudioCall audio]
       | (Inr audio_embeds, p) \<Rightarrow>
           new_calls w w' = [AudioCall audio, DecoderCall text (Some audio_embeds) kw] \<and>
           r = fst (decoder self text (Some audio_embeds) kw p)))"
  by (rule conjI [OF image_only_calls audio_only_calls])

theorem forward_single_modality_calls_witness:
  "new_calls world0 (snd (forward model0 (Some text0) (Some img0) None () world0)) =
     [ImgCall img0, DecoderCall text0 (Some img_embeds0) ()]
   \<and> new_calls world0 (snd (forward model0 (Some text0) None (Some audio0) () world0)) =
     [AudioCall audio0, DecoderCall text0 (Some audio_embeds0) ()]"
proof -
  have i: "img_to_text_embedding model0 img0 (params world0) = (Inr img_embeds0, 0)"
    and a: "audio_to_lang_embedding model0 audio0 (params world0) = (Inr audio_embeds0, 0)"
    by (simp_all add: model0_def stub_model_def stub_encoder_def world0_def)
  from forward_single_modality_calls
         [where self = model0 and ?text = text0 and img = img0 and audio = audio0
            and kw = "()" and w = world0]
  show ?thesis
    by (simp add: i a split: prod.splits)
qed

section \<open>Mismatched shapes in the fusion\<close>

text \<open>
  With both encoders returning and all three tensors of rank 3, a hidden size that
  differs makes \<^verbatim>\<open>torch.cat\<close> raise, and \<^verbatim>\<open>forward\<close> re-raises without calling the
  decoder.
\<close>

lemma forward_raises_on_hidden_size_mismatch:
  assumes "audio_to_lang_embedding self audio (params w) = (Inr audio_embeds, p1)"
    and "img_to_text_embedding self img p1 = (Inr img_embeds, p2)"
    and "shape text = [b1, s1, d1]" and "shape img_embeds = [b2, s2, d2]"
    and "shape audio_embeds = [b3, s3, d3]"
    and "d2 \<noteq> d1 \<or> d3 \<noteq> d1"
  shows "fst (forward self (Some text) (Some img) (Some audio) kw w) =
           Inl (Exn ''RuntimeError''
                  ''Sizes of tensors must match except in the concatenating dimension'')
         \<and> decoder_calls
             (new_calls w (snd (forward self (Some text) (Some img) (Some audio) kw w))) = 0"
proof -
  have "map_sum id shape (torch_cat [text, img_embeds, audio_embeds] 0) =
          Inl (Exn ''RuntimeError''
                 ''Sizes of tensors must match except in the concatenating dimension'')"
    using torch_cat0_rank3 [OF assms(3) assms(4) assms(5)] assms(6) by auto
  then have cat: "torch_cat [text, img_embeds, audio_embeds] 0 =
          Inl (Exn ''RuntimeError''
                 ''Sizes of tensors must match except in the concatenating dimension'')"
    by (cases "torch_cat [text, img_embeds, audio_embeds] 0") simp_all
  show ?thesis
    using assms(1) assms(2) cat by (simp add: run_defs)
qed

text \<open>
  With equal sequence lengths and hidden sizes the batch sizes may be anything: the
  decoder is handed a prepend whose first dimension is their sum.
\<close>

lemma forward_adds_batch_sizes:
  assumes "audio_to_lang_embedding self audio (params w) = (Inr audio_embeds, p1)"
    and "img_to_text_embedding self img p1 = (Inr img_embeds, p2)"
    and "shape text = [b1, s, d]" and "shape img_embeds = [b2, s, d]"
    and "shape audio_embeds = [b3, s, d]"
  shows "\<exists>fused. shape fused = [b1 + b2 + b3, s, d] \<and>
           new_calls w (snd (forward self (Some text) (Some img) (Some audio) kw w)) =
             [AudioCall audio, ImgCall img, DecoderCall text (Some fused) kw]"
proof -
  have "map_sum id shape (torch_cat [text, img_embeds, audio_embeds] 0) =
          Inr [b1 + b2 + b3, s, d]"
    using torch_cat0_rank3 [OF assms(3) assms(4) assms(5)] by simp
  then obtain fused where cat: "torch_cat [text, img_embeds, audio_embeds] 0 = Inr fused"
    and sh: "shape fused = [b1 + b2 + b3, s, d]"
    by (cases "torch_cat [text, img_embeds, audio_embeds] 0") auto
  have "new_calls w (snd (forward self (Some text) (Some img) (Some audio) kw w)) =
             [AudioCall audio, ImgCall img, DecoderCall text (Some fused) kw]"
    using assms(1) assms(2) cat by (simp add: run_defs split: sum.splits)
  with sh show ?thesis by blast
qed

text \<open>
  Claim C6 says that embeddings of mismatched batch size or hidden size make
  \<^verbatim>\<open>forward\<close> raise. For the hidden size it does (the lemma above). For the batch size
  it does not: the concatenation runs along the batch axis (see claim C2), so a text of
  batch size 2, image embeddings of batch size 2 and audio embeddings of batch size 3
  are fused without an exception into a prepend of shape \<open>[7, 1, 1]\<close>, which the decoder
  receives; nothing but the shape of the text is printed.
\<close>

theorem forward_fuses_mismatched_batch_sizes:
  "forward (stub_model img_embeds0 audio_embeds_batch3)
       (Some text0) (Some img0) (Some audio_batch3) () world0 =
     (Inr (tensor_of [7, 1, 1] [1, 2, 3, 4, 5, 6, 7]),
      \<lparr>stdout = [''Text shape: torch.Size([2, 1, 1])''],
       calls = [AudioCall audio_batch3, ImgCall img0,
                DecoderCall text0 (Some (tensor_of [7, 1, 1] [1, 2, 3, 4, 5, 6, 7])) ()],
       params = 0\<rparr>)"
  by code_simp

section \<open>Logging and re-raising\<close>

text \<open>
  Inside the \<^verbatim>\<open>try\<close> statement of \<^verbatim>\<open>forward\<close>, that is for a call with a text tensor:
  \<^verbatim>\<open>forward\<close> raises \<open>e\<close> exactly when the body raises \<open>e\<close>, so the caller sees the
  original exception; an instance of \<^verbatim>\<open>Exception\<close> is printed after the prefix
  \<^verbatim>\<open>"Failed in forward method: "\<close> and a space, and any other exception passes the
  \<^verbatim>\<open>except Exception\<close> clause and is not printed.
\<close>

lemma forward_try_boundary:
  "(fst (forward self (Some text) img audio kw w) = Inl e) =
     (fst (forward_body self text img audio kw
            (w\<lparr>stdout := stdout w @ [''Text shape: '' @ show_size (shape text)]\<rparr>)) = Inl e)
   \<and> (fst (forward self (Some text) img audio kw w) = Inl e \<longrightarrow>
        stdout (snd (forward self (Some text) img audio kw w)) =
          stdout w @ (''Text shape: '' @ show_size (shape text)) #
            (if is_Exception e then [''Failed in forward method: '' @ '' '' @ exn_str e]
             else []))"
proof -
  let ?w1 = "w\<lparr>stdout := stdout w @ [''Text shape: '' @ show_size (shape text)]\<rparr>"
  have keep: "stdout (snd (forward_body self text img audio kw ?w1)) = stdout ?w1"
    by (rule forward_body_keeps_stdout)
  show ?thesis
  proof (cases "forward_body self text img audio kw ?w1")
    case (Pair r w2)
    with keep show ?thesis
      by (cases r) (auto simp add: forward_Some)
  qed
qed

lemma forward_logs_raising_decoder:
  "forward (model0\<lparr>decoder := raising_decoder boom\<rparr>) (Some text0) None None () world0 =
     (Inl boom,
      \<lparr>stdout = [''Text shape: torch.Size([2, 1, 1])'', ''Failed in forward method:  boom''],
       calls = [DecoderCall text0 None ()], params = 0\<rparr>)"
  by code_simp

lemma forward_interrupt_is_not_logged:
  "forward (model0\<lparr>decoder := raising_decoder keyboard_interrupt\<rparr>)
       (Some text0) None None () world0 =
     (Inl keyboard_interrupt,
      \<lparr>stdout = [''Text shape: torch.Size([2, 1, 1])''],
       calls = [DecoderCall text0 None ()], params = 0\<rparr>)"
  by code_simp

text \<open>
  Claim C7 says that any exception raised during \<^verbatim>\<open>forward\<close>, a missing text included,
  is logged with the prefix of the handler and re-raised. \<^verbatim>\<open>text\<close> is optional in the
  signature, with the default \<^verbatim>\<open>None\<close>, and the statement that reads its shape for a
  print stands before the \<^verbatim>\<open>try\<close>. Evaluated on the call with no argument,
  \<^verbatim>\<open>forward\<close> raises an \<^verbatim>\<open>AttributeError\<close>, which is an instance of \<^verbatim>\<open>Exception\<close> and
  so of the class the handler catches, and nothing at all has been printed: the
  exception leaves \<^verbatim>\<open>forward\<close> without the line the claim promises.
\<close>

theorem forward_without_text_is_not_logged:
  "fst (forward model0 None None None () world0) =
     Inl (Exn ''AttributeError'' no_attribute_shape)
   \<and> is_Exception (Exn ''AttributeError'' no_attribute_shape)
   \<and> stdout (snd (forward model0 None None None () world0)) = []"
  by (simp add: forward_None world0_def)

section \<open>Failures of the constructor\<close>

text \<open>
  Claim C8 says that any exception raised while a sub-module is constructed is printed
  with the prefix of the handler. The clause at line 100 is \<^verbatim>\<open>except Exception\<close>: a
  \<^verbatim>\<open>KeyboardInterrupt\<close> raised while the autoregressive wrapper is constructed leaves
  \<^verbatim>\<open>__init__\<close> and nothing has been printed.
\<close>

theorem init_interrupt_is_not_printed:
  "Gemini_init interrupted_classes (default_config ()) world0 =
     (Inl keyboard_interrupt, \<lparr>stdout = [], calls = [], params = 2\<rparr>)"
  by (simp add: Gemini_init_def init_body_def try_except_def bind_prog_def construct_def
      interrupted_classes_def stub_classes_def default_config_def world0_def
      keyboard_interrupt_def)

text \<open>
  Claim C8, amended. Whichever of the five constructor calls of \<^verbatim>\<open>__init__\<close> raises
  (\<^verbatim>\<open>Decoder\<close> and \<^verbatim>\<open>Transformer\<close> for the transformer, \<^verbatim>\<open>AutoregressiveWrapper\<close>,
  \<^verbatim>\<open>ImageToTextEmbeddings\<close>, \<^verbatim>\<open>AudioToEmbeddings\<close>, in this order, each started only
  when the ones before it have returned): an exception that is an instance of
  \<^verbatim>\<open>Exception\<close> is caught by the one handler, which prints
  \<^verbatim>\<open>"Failed to initialize gemini: "\<close>, a space and the text of the exception, and the
  same exception leaves \<^verbatim>\<open>__init__\<close>; any other exception leaves \<^verbatim>\<open>__init__\<close>
  unchanged with nothing printed. Either way the caller receives no model. A model is
  returned only when all five have returned, and it holds what they returned.
\<close>

theorem init_logs_and_reraises:
  "(case Decoder lib (dim c) (depth c) (dim_head c) (heads c) (attn_flash c) (attn_kv_heads c)
           (qk_norm c) (attn_qk_norm c) (attn_qk_norm_dim_scale c) (extra_args c) (params w) of
      (Inl e, p1) \<Rightarrow> init_raised (Gemini_init lib c w) w e p1
    | (Inr attn_layers, p1) \<Rightarrow>
   (case Transformer lib (num_tokens c) (max_seq_len c) (use_abs_pos_emb c) attn_layers p1 of
      (Inl e, p2) \<Rightarrow> init_raised (Gemini_init lib c w) w e p2
    | (Inr self_gemini, p2) \<Rightarrow>
   (case AutoregressiveWrapper lib self_gemini p2 of
      (Inl e, p3) \<Rightarrow> init_raised (Gemini_init lib c w) w e p3
    | (Inr self_decoder, p3) \<Rightarrow>
   (case ImageToTextEmbeddings lib (patches c) (dim c) (max_seq_len c) (extra_args c) p3 of
      (Inl e, p4) \<Rightarrow> init_raised (Gemini_init lib c w) w e p4
    | (Inr self_img, p4) \<Rightarrow>
   (case AudioToEmbeddings lib (audio_seq_len c) (max_seq_len c) (extra_args c) p4 of
      (Inl e, p5) \<Rightarrow> init_raised (Gemini_init lib c w) w e p5
    | (Inr self_audio, p5) \<Rightarrow>
        Gemini_init lib c w =
          (Inr \<lparr>gemini = self_gemini, decoder = self_decoder,
                img_to_text_embedding = self_img, audio_to_lang_embedding = self_audio\<rparr>,
           w\<lparr>params := p5\<rparr>))))))"
  by (simp add: Gemini_init_def init_body_def init_handler_def try_except_def bind_prog_def
      construct_def print_line_def raise_exn_def return_value_def init_raised_def
      logged_and_reraised_def reraised_unlogged_def split: prod.splits sum.splits)

theorem init_logs_and_reraises_witness:
  "is_Exception (Exn ''ValueError'' ''audio_seq_len must be positive'')
   \<and> Gemini_init stub_classes ((default_config ())\<lparr>audio_seq_len := 0\<rparr>) world0 =
     (Inl (Exn ''ValueError'' ''audio_seq_len must be positive''),
      \<lparr>stdout = [''Failed to initialize gemini:  audio_seq_len must be positive''],
       calls = [], params = 4\<rparr>)"
  using init_logs_and_reraises [of stub_classes "(default_config ())\<lparr>audio_seq_len := 0\<rparr>" world0]
  by (simp add: stub_classes_def default_config_def world0_def init_raised_def
      logged_and_reraised_def)

section \<open>The state of the model\<close>

text \<open>
  Claim C9. \<^verbatim>\<open>forward\<close> assigns no attribute of \<^verbatim>\<open>self\<close>: the model object is only
  read, and whatever the text, the image and the audio are, and whether \<^verbatim>\<open>forward\<close>
  returns or raises, the state of the sub-modules after the call is what the recorded
  sub-module calls wrote, nothing more. So, with sub-modules whose forward passes are
  read-only, as the specification describes them, the parameters of the model after the
  call are the parameters before it.
\<close>

theorem forward_keeps_model_state:
  "params (snd (forward self text img audio kw w)) =
     written_by self (new_calls w (snd (forward self text img audio kw w))) (params w)
   \<and> (encoder_read_only (img_to_text_embedding self) \<and>
       encoder_read_only (audio_to_lang_embedding self) \<and>
       decoder_read_only (decoder self) \<longrightarrow>
       params (snd (forward self text img audio kw w)) = params w)"
  using forward_writes_only_in_calls [of self "text" img audio kw w]
    forward_read_only [of self "text" img audio kw w]
  by blast

theorem forward_keeps_model_state_witness:
  "encoder_read_only (img_to_text_embedding model0)
   \<and> encoder_read_only (audio_to_lang_embedding model0)
   \<and> decoder_read_only (decoder model0)
   \<and> params (snd (forward model0 (Some text0) (Some img0) (Some audio0) () world0)) = 0"
proof -
  have ro: "encoder_read_only (img_to_text_embedding model0)"
    "encoder_read_only (audio_to_lang_embedding model0)"
    "decoder_read_only (decoder model0)"
    by (simp_all add: encoder_read_only_def decoder_read_only_def model0_def stub_model_def
        stub_encoder_def stub_decoder_def)
  from forward_keeps_model_state
         [where self = model0 and ?text = "Some text0" and img = "Some img0"
            and audio = "Some audio0" and kw = "()" and w = world0]
  show ?thesis using ro by (simp add: world0_def)
qed

section \<open>The call without text\<close>

text \<open>
  Claim C10. With \<^verbatim>\<open>text\<close> absent (\<^verbatim>\<open>None\<close>, the default), \<^verbatim>\<open>forward\<close> raises at the
  statement that prints the shape of the text, whatever the image and the audio are.
  The world is left as it was: nothing has been printed, so the exception is not
  logged with the prefix of the handler, and no sub-module has been called, so none of
  the four branches has run.
\<close>

theorem forward_without_text_raises_unlogged:
  "forward self None img audio kw w = (Inl (Exn ''AttributeError'' no_attribute_shape), w)
   \<and> stdout (snd (forward self None img audio kw w)) = stdout w
   \<and> new_calls w (snd (forward self None img audio kw w)) = []"
  by (simp add: forward_None new_calls_def)

end
